theory Spec2Isabelle
  imports Main
begin

section \<open>The constants of Xit: \<^verbatim>\<open>Xit/XTConstants.h\<close>\<close>

text \<open>
  The header declares three C enumerations and two external string variables. Each
  enumeration becomes a datatype with the enumerators as constructors, in the order of
  the declaration, and a declaration list that records for each enumerator whether the
  source gives it an explicit value. The integer of an enumerator is computed from that
  list by the rule of the C language.
\<close>

subsection \<open>Enumeration constants in C\<close>

text \<open>
  An enumerator written \<^verbatim>\<open>name = v\<close> has the value \<open>v\<close>; an enumerator with no
  \<^verbatim>\<open>=\<close> has the value of the previous enumerator plus one, and the value 0 when it
  is the first. Enumeration constants have type \<^verbatim>\<open>int\<close>; the values of this header
  lie between 0 and 5, so they are modelled as \<^typ>\<open>int\<close>.
\<close>

fun enum_values :: "int \<Rightarrow> ('a \<times> int option) list \<Rightarrow> ('a \<times> int) list" where
  "enum_values n [] = []"
| "enum_values n ((c, None) # ds) = (c, n) # enum_values (n + 1) ds"
| "enum_values n ((c, Some v) # ds) = (c, v) # enum_values (v + 1) ds"

definition enum_value :: "('a \<times> int option) list \<Rightarrow> 'a \<Rightarrow> int" where
  "enum_value decl c = the (map_of (enum_values 0 decl) c)"

subsection \<open>\<^verbatim>\<open>XTRefType\<close>\<close>

text \<open>
  \<^verbatim>\<open>
  typedef enum {
    XTRefTypeBranch,
    XTRefTypeActiveBranch,
    XTRefTypeRemoteBranch,
    XTRefTypeTag,
    XTRefTypeRemote,
    XTRefTypeUnknown
  } XTRefType;
  \<close>
\<close>

datatype XTRefType =
    XTRefTypeBranch
  | XTRefTypeActiveBranch
  | XTRefTypeRemoteBranch
  | XTRefTypeTag
  | XTRefTypeRemote
  | XTRefTypeUnknown

definition XTRefType_decl :: "(XTRefType \<times> int option) list" where
  "XTRefType_decl =
     [(XTRefTypeBranch, None),
      (XTRefTypeActiveBranch, None),
      (XTRefTypeRemoteBranch, None),
      (XTRefTypeTag, None),
      (XTRefTypeRemote, None),
      (XTRefTypeUnknown, None)]"

definition XTRefType_val :: "XTRefType \<Rightarrow> int" where
  "XTRefType_val = enum_value XTRefType_decl"

subsection \<open>\<^verbatim>\<open>XTSideBarRootItems\<close>\<close>

text \<open>
  \<^verbatim>\<open>
  typedef enum {
    XTBranchesGroupIndex,
    XTRemotesGroupIndex,
    XTTagsGroupIndex,
    XTStashesGroupIndex
  } XTSideBarRootItems;
  \<close>
\<close>

datatype XTSideBarRootItems =
    XTBranchesGroupIndex
  | XTRemotesGroupIndex
  | XTTagsGroupIndex
  | XTStashesGroupIndex

definition XTSideBarRootItems_decl :: "(XTSideBarRootItems \<times> int option) list" where
  "XTSideBarRootItems_decl =
     [(XTBranchesGroupIndex, None),
      (XTRemotesGroupIndex, None),
      (XTTagsGroupIndex, None),
      (XTStashesGroupIndex, None)]"

definition XTSideBarRootItems_val :: "XTSideBarRootItems \<Rightarrow> int" where
  "XTSideBarRootItems_val = enum_value XTSideBarRootItems_decl"

subsection \<open>\<^verbatim>\<open>XTError\<close>\<close>

text \<open>
  \<^verbatim>\<open>
  typedef enum {
    XTErrorWriteLock = 1
  } XTError;
  \<close>
\<close>

datatype XTError = XTErrorWriteLock

definition XTError_decl :: "(XTError \<times> int option) list" where
  "XTError_decl = [(XTErrorWriteLock, Some 1)]"

definition XTError_val :: "XTError \<Rightarrow> int" where
  "XTError_val = enum_value XTError_decl"

subsection \<open>The error domains\<close>

text \<open>
  \<^verbatim>\<open>
  extern NSString *XTErrorDomainXit, *XTErrorDomainGit;
  \<close>
  The header only declares the two variables; the file that defines them and gives them
  their strings is not part of the sources at hand.
\<close>

text \<open>
  Modelled from the spec: the values of \<^verbatim>\<open>XTErrorDomainXit\<close> and
  \<^verbatim>\<open>XTErrorDomainGit\<close>, whose defining file is missing. The spec describes them as
  two opaque, process-wide constant tokens, compared by identity: one identifies errors
  raised by the application itself, the other errors surfaced from the underlying Git
  library.
\<close>

datatype ErrorDomain = ErrorDomainApplication | ErrorDomainUnderlyingLibrary

definition XTErrorDomainXit :: ErrorDomain where
  "XTErrorDomainXit = ErrorDomainApplication"

definition XTErrorDomainGit :: ErrorDomain where
  "XTErrorDomainGit = ErrorDomainUnderlyingLibrary"

section \<open>Values of the enumerators\<close>

lemma XTRefType_vals:
  "XTRefType_val XTRefTypeBranch = 0"
  "XTRefType_val XTRefTypeActiveBranch = 1"
  "XTRefType_val XTRefTypeRemoteBranch = 2"
  "XTRefType_val XTRefTypeTag = 3"
  "XTRefType_val XTRefTypeRemote = 4"
  "XTRefType_val XTRefTypeUnknown = 5"
  by (simp_all add: XTRefType_val_def enum_value_def XTRefType_decl_def)

lemma XTSideBarRootItems_vals:
  "XTSideBarRootItems_val XTBranchesGroupIndex = 0"
  "XTSideBarRootItems_val XTRemotesGroupIndex = 1"
  "XTSideBarRootItems_val XTTagsGroupIndex = 2"
  "XTSideBarRootItems_val XTStashesGroupIndex = 3"
  by (simp_all add: XTSideBarRootItems_val_def enum_value_def XTSideBarRootItems_decl_def)

lemma XTError_vals: "XTError_val XTErrorWriteLock = 1"
  by (simp add: XTError_val_def enum_value_def XTError_decl_def)

lemma UNIV_XTRefType:
  "(UNIV :: XTRefType set) =
     {XTRefTypeBranch, XTRefTypeActiveBranch, XTRefTypeRemoteBranch,
      XTRefTypeTag, XTRefTypeRemote, XTRefTypeUnknown}"
  by (auto intro: XTRefType.exhaust)

lemma UNIV_XTSideBarRootItems:
  "(UNIV :: XTSideBarRootItems set) =
     {XTBranchesGroupIndex, XTRemotesGroupIndex, XTTagsGroupIndex, XTStashesGroupIndex}"
  by (auto intro: XTSideBarRootItems.exhaust)

lemma XTError_only: "(v :: XTError) = XTErrorWriteLock"
  by (cases v) simp

text \<open>
  Every constructor is an enumerator of its declaration, so \<^const>\<open>enum_value\<close> never
  reads an enumerator that the declaration does not list.
\<close>

lemma XTRefType_decl_total: "fst ` set (enum_values 0 XTRefType_decl) = UNIV"
  by (simp add: UNIV_XTRefType XTRefType_decl_def)

lemma XTSideBarRootItems_decl_total:
  "fst ` set (enum_values 0 XTSideBarRootItems_decl) = UNIV"
  by (simp add: UNIV_XTSideBarRootItems XTSideBarRootItems_decl_def)

lemma XTError_decl_total: "fst ` set (enum_values 0 XTError_decl) = UNIV"
  using XTError_only by (auto simp add: XTError_decl_def)

section \<open>Properties of the taxonomy\<close>

text \<open>
  C1. \<^verbatim>\<open>XTRefType\<close> has exactly the six values Branch, ActiveBranch, RemoteBranch, Tag,
  Remote and Unknown. The six are pairwise distinct, their integers are pairwise distinct
  too, and Unknown is none of the other five.
\<close>

theorem XTRefType_six_distinct:
  "(UNIV :: XTRefType set) =
     {XTRefTypeBranch, XTRefTypeActiveBranch, XTRefTypeRemoteBranch,
      XTRefTypeTag, XTRefTypeRemote, XTRefTypeUnknown}
   \<and> distinct [XTRefTypeBranch, XTRefTypeActiveBranch, XTRefTypeRemoteBranch,
                XTRefTypeTag, XTRefTypeRemote, XTRefTypeUnknown]
   \<and> distinct (map XTRefType_val
        [XTRefTypeBranch, XTRefTypeActiveBranch, XTRefTypeRemoteBranch,
         XTRefTypeTag, XTRefTypeRemote, XTRefTypeUnknown])
   \<and> card (XTRefType_val ` UNIV) = 6
   \<and> XTRefTypeUnknown \<notin> {XTRefTypeBranch, XTRefTypeActiveBranch, XTRefTypeRemoteBranch,
                           XTRefTypeTag, XTRefTypeRemote}"
proof -
  have "card (XTRefType_val ` UNIV) = 6"
    unfolding UNIV_XTRefType by (simp add: XTRefType_vals)
  then show ?thesis
    using UNIV_XTRefType by (simp add: XTRefType_vals)
qed

text \<open>
  C2. \<^verbatim>\<open>XTSideBarRootItems\<close> has exactly four values, pairwise distinct, with the
  integers Branches = 0, Remotes = 1, Tags = 2, Stashes = 3; read in the order of their
  integers, the declared groups are the sequence Branches, Remotes, Tags, Stashes, and
  there is no fifth group.
\<close>

theorem XTSideBarRootItems_four_ordered:
  "(UNIV :: XTSideBarRootItems set) =
     {XTBranchesGroupIndex, XTRemotesGroupIndex, XTTagsGroupIndex, XTStashesGroupIndex}
   \<and> card (UNIV :: XTSideBarRootItems set) = 4
   \<and> distinct [XTBranchesGroupIndex, XTRemotesGroupIndex, XTTagsGroupIndex,
                XTStashesGroupIndex]
   \<and> map XTSideBarRootItems_val
        [XTBranchesGroupIndex, XTRemotesGroupIndex, XTTagsGroupIndex, XTStashesGroupIndex]
       = [0, 1, 2, 3]
   \<and> map fst (sort_key snd (enum_values 0 XTSideBarRootItems_decl))
       = [XTBranchesGroupIndex, XTRemotesGroupIndex, XTTagsGroupIndex, XTStashesGroupIndex]"
proof -
  have "card (UNIV :: XTSideBarRootItems set) = 4"
    unfolding UNIV_XTSideBarRootItems by simp
  moreover have "map fst (sort_key snd (enum_values 0 XTSideBarRootItems_decl))
       = [XTBranchesGroupIndex, XTRemotesGroupIndex, XTTagsGroupIndex, XTStashesGroupIndex]"
    by (simp add: XTSideBarRootItems_decl_def)
  ultimately show ?thesis
    using UNIV_XTSideBarRootItems by (simp add: XTSideBarRootItems_vals)
qed

text \<open>
  C3. The enumerator \<^verbatim>\<open>XTErrorWriteLock\<close> has the value 1, and it is the only value
  of \<^verbatim>\<open>XTError\<close>.
\<close>

theorem XTErrorWriteLock_is_1_and_only:
  "XTError_val XTErrorWriteLock = 1 \<and> (\<forall>v :: XTError. v = XTErrorWriteLock)"
  using XTError_only by (simp add: XTError_vals)

text \<open>
  C4. The two error domains, the application's and the Git library's, are different
  identifiers.
\<close>

theorem XTErrorDomains_distinct: "XTErrorDomainXit \<noteq> XTErrorDomainGit"
  by (simp add: XTErrorDomainXit_def XTErrorDomainGit_def)

text \<open>
  C5. No value of \<^verbatim>\<open>XTError\<close> has the integer 0: every error code that the header
  defines is nonzero.
\<close>

theorem XTError_nonzero: "\<forall>e :: XTError. XTError_val e \<noteq> 0"
proof
  fix e :: XTError
  have "e = XTErrorWriteLock" by (rule XTError_only)
  then show "XTError_val e \<noteq> 0" by (simp add: XTError_vals)
qed

text \<open>
  C8. The integers of the six \<^verbatim>\<open>XTRefType\<close> enumerators are 0 to 5 in the order of
  the declaration: Branch = 0, ActiveBranch = 1, RemoteBranch = 2, Tag = 3, Remote = 4,
  Unknown = 5. Unknown has the greatest one: every other value has an integer strictly
  below that of Unknown.
\<close>

theorem XTRefType_ordinals:
  "map XTRefType_val
     [XTRefTypeBranch, XTRefTypeActiveBranch, XTRefTypeRemoteBranch,
      XTRefTypeTag, XTRefTypeRemote, XTRefTypeUnknown] = [0, 1, 2, 3, 4, 5]
   \<and> (\<forall>r. r \<noteq> XTRefTypeUnknown \<longrightarrow> XTRefType_val r < XTRefType_val XTRefTypeUnknown)"
proof -
  have "XTRefType_val r < XTRefType_val XTRefTypeUnknown" if "r \<noteq> XTRefTypeUnknown" for r
    using that by (cases r) (simp_all add: XTRefType_vals)
  then show ?thesis
    by (simp add: XTRefType_vals)
qed

theorem XTRefType_ordinals_witness:
  "XTRefTypeTag \<noteq> XTRefTypeUnknown
   \<and> XTRefType_val XTRefTypeTag < XTRefType_val XTRefTypeUnknown"
proof -
  have d: "XTRefTypeTag \<noteq> XTRefTypeUnknown" by simp
  have "\<forall>r. r \<noteq> XTRefTypeUnknown \<longrightarrow> XTRefType_val r < XTRefType_val XTRefTypeUnknown"
    using XTRefType_ordinals by (rule conjunct2)
  then have "XTRefType_val XTRefTypeTag < XTRefType_val XTRefTypeUnknown"
    using d by blast
  with d show ?thesis by (rule conjI)
qed

text \<open>
  C9. The integers are not unique across the enumerations: \<^verbatim>\<open>XTRefTypeBranch\<close> and
  \<^verbatim>\<open>XTBranchesGroupIndex\<close> are both 0, and the integers shared by
  \<^verbatim>\<open>XTRefType\<close> and \<^verbatim>\<open>XTSideBarRootItems\<close> are 0, 1, 2 and 3. An integer alone
  does not tell which enumeration it came from.
\<close>

theorem ordinals_overlap:
  "XTRefType_val XTRefTypeBranch = 0
   \<and> XTSideBarRootItems_val XTBranchesGroupIndex = 0
   \<and> (\<exists>r s. XTRefType_val r = XTSideBarRootItems_val s)
   \<and> range XTRefType_val \<inter> range XTSideBarRootItems_val = {0, 1, 2, 3}"
proof -
  have "XTRefType_val XTRefTypeBranch = XTSideBarRootItems_val XTBranchesGroupIndex"
    by (simp add: XTRefType_vals XTSideBarRootItems_vals)
  then have "\<exists>r s. XTRefType_val r = XTSideBarRootItems_val s" by blast
  moreover have "range XTRefType_val \<inter> range XTSideBarRootItems_val = {0, 1, 2, 3}"
    unfolding UNIV_XTRefType UNIV_XTSideBarRootItems
    by (simp add: XTRefType_vals XTSideBarRootItems_vals)
  ultimately show ?thesis
    by (simp add: XTRefType_vals XTSideBarRootItems_vals)
qed

end
